theory Spec2Isabelle
  imports Main "HOL-Library.Log_Nat" "HOL-Library.Word"
begin

section \<open>Python floats\<close>

text \<open>
  The money columns of \<^verbatim>\<open>models.py\<close> are \<^verbatim>\<open>db.Float\<close>: IEEE 754 binary64 values,
  and the arithmetic of \<^verbatim>\<open>get_discounted_price\<close>, \<^verbatim>\<open>get_subtotal\<close> and \<^verbatim>\<open>checkout\<close> is
  Python's float arithmetic. A finite double is represented by the rational number it
  denotes. Every operation computes the exact rational result and rounds it to the nearest
  double, ties to the even significand (\<open>to_double\<close>): 53 significant bits, quantum
  \<open>2 ^ (e - 52)\<close> for a value in \<open>[2 ^ e, 2 ^ (e + 1))\<close>, and the fixed quantum
  \<open>2 ^ - 1074\<close> in the subnormal range. Infinities and NaN are not represented: the
  model covers results below \<open>2 ^ 1024\<close> in magnitude.
\<close>

type_synonym pyfloat = rat

definition pow2 :: "int \<Rightarrow> rat" where
  "pow2 k = (if 0 \<le> k then 2 ^ nat k else 1 / 2 ^ nat (- k))"

definition round_half_even :: "rat \<Rightarrow> int" where
  "round_half_even x =
     (let f = \<lfloor>x\<rfloor>; r = x - of_int f
      in if r < 1 / 2 then f
         else if 1 / 2 < r then f + 1
         else if even f then f else f + 1)"

text \<open>\<open>float_exponent x\<close> is the \<open>e\<close> with \<open>2 ^ e \<le> \<bar>x\<bar> < 2 ^ (e + 1)\<close>, for \<open>x \<noteq> 0\<close>.\<close>

definition float_exponent :: "rat \<Rightarrow> int" where
  "float_exponent x =
     (let a = \<bar>x\<bar>
      in if 1 \<le> a then bitlen \<lfloor>a\<rfloor> - 1 else - bitlen (\<lceil>1 / a\<rceil> - 1))"

definition to_double :: "rat \<Rightarrow> pyfloat" where
  "to_double x =
     (if x = 0 then 0
      else let q = max (float_exponent x - 52) (- 1074)
           in of_int (round_half_even (x / pow2 q)) * pow2 q)"

definition fadd :: "pyfloat \<Rightarrow> pyfloat \<Rightarrow> pyfloat" where
  "fadd a b = to_double (a + b)"

definition fsub :: "pyfloat \<Rightarrow> pyfloat \<Rightarrow> pyfloat" where
  "fsub a b = to_double (a - b)"

definition fmul :: "pyfloat \<Rightarrow> pyfloat \<Rightarrow> pyfloat" where
  "fmul a b = to_double (a * b)"

text \<open>The only divisor in the modelled code is the literal \<^verbatim>\<open>100\<close>.\<close>

definition fdiv :: "pyfloat \<Rightarrow> pyfloat \<Rightarrow> pyfloat" where
  "fdiv a b = to_double (a / b)"

text \<open>An \<^verbatim>\<open>int\<close> operand of a float operation is converted to the nearest double first.\<close>

definition float_of_int :: "int \<Rightarrow> pyfloat" where
  "float_of_int n = to_double (of_int n)"

text \<open>
  \<^verbatim>\<open>round(x, 2)\<close> on a float is correctly rounded: the exact value of \<open>x\<close> is rounded
  to two decimals, ties to even, and the decimal result is converted to the nearest double.
\<close>

definition py_round2 :: "pyfloat \<Rightarrow> pyfloat" where
  "py_round2 x = to_double (of_int (round_half_even (x * 100)) / 100)"

text \<open>
  \<^verbatim>\<open>sum(...)\<close> starts from the integer \<^verbatim>\<open>0\<close> and adds the items from left to right.
  (From CPython 3.12 on \<^verbatim>\<open>sum\<close> compensates the rounding errors of its additions; the
  concrete sums evaluated below have exact partial sums, where both agree.)
\<close>

definition py_sum :: "pyfloat list \<Rightarrow> pyfloat" where
  "py_sum xs = foldl fadd 0 xs"

section \<open>The data model (models.py)\<close>

text \<open>
  The columns the cart and the checkout read or write. Fields carry the table as a prefix,
  since several tables share the column names \<^verbatim>\<open>quantity\<close>, \<^verbatim>\<open>subtotal\<close>, \<^verbatim>\<open>user_id\<close>
  and \<^verbatim>\<open>product_id\<close>. The primary key of a product is its key in the table. A
  nullable column (\<^verbatim>\<open>discount_percentage\<close>, \<^verbatim>\<open>stock_quantity\<close>) holds a value.
\<close>

record product =
  p_name :: string
  p_size :: string
  p_sku :: string
  p_price :: pyfloat
  p_discount_percentage :: pyfloat
  p_stock_quantity :: int
  p_is_active :: bool

definition is_in_stock :: "product \<Rightarrow> bool" where
  "is_in_stock p = (0 < p_stock_quantity p)"

definition get_discounted_price :: "product \<Rightarrow> pyfloat" where
  "get_discounted_price p =
     (if 0 < p_discount_percentage p
      then py_round2 (fmul (p_price p) (fsub 1 (fdiv (p_discount_percentage p) 100)))
      else p_price p)"

record cart_item =
  ci_id :: nat
  ci_quantity :: int
  ci_user_id :: nat
  ci_product_id :: nat

record order =
  o_id :: nat
  o_order_number :: string
  o_status :: string
  o_payment_method :: string
  o_payment_status :: string
  o_payment_id :: string
  o_subtotal :: pyfloat
  o_tax_amount :: pyfloat
  o_shipping_cost :: pyfloat
  o_discount_amount :: pyfloat
  o_total_amount :: pyfloat
  o_shipping_full_name :: string
  o_shipping_phone :: string
  o_shipping_address_line1 :: string
  o_shipping_address_line2 :: string
  o_shipping_city :: string
  o_shipping_state :: string
  o_shipping_pincode :: string
  o_notes :: string
  o_user_id :: nat

record order_item =
  oi_quantity :: int
  oi_unit_price :: pyfloat
  oi_subtotal :: pyfloat
  oi_product_name :: string
  oi_product_size :: string
  oi_product_sku :: string
  oi_order_id :: nat
  oi_product_id :: nat

text \<open>The four tables of the checkout. \<^verbatim>\<open>cart_item.product\<close> is the lookup of
  \<^verbatim>\<open>product_id\<close> in \<open>products\<close>: \<^verbatim>\<open>None\<close> when the row is gone.\<close>

record database =
  products :: "nat \<rightharpoonup> product"
  cart_items :: "cart_item list"
  orders :: "order list"
  order_items :: "order_item list"

datatype py_error = AttributeError | IntegrityError | OperationalError

text \<open>\<^verbatim>\<open>CartItem.get_subtotal\<close>: the arithmetic on the unit price and the quantity, and the
  method itself, which raises \<^verbatim>\<open>AttributeError\<close> on a cart line whose product is gone.\<close>

definition line_subtotal :: "pyfloat \<Rightarrow> int \<Rightarrow> pyfloat" where
  "line_subtotal unit_price quantity = py_round2 (fmul unit_price (float_of_int quantity))"

definition get_subtotal :: "database \<Rightarrow> cart_item \<Rightarrow> py_error + pyfloat" where
  "get_subtotal db item =
     (case products db (ci_product_id item) of
        None \<Rightarrow> Inl AttributeError
      | Some p \<Rightarrow> Inr (line_subtotal (get_discounted_price p) (ci_quantity item)))"

section \<open>The checkout form (blueprints/forms.py)\<close>

datatype http_method = GET | POST

text \<open>
  A request to the checkout route: its method, whether Flask-WTF accepts its CSRF token,
  and the submitted fields (a field that is not submitted is the empty string). Strings
  are byte strings, which agree with Python's on ASCII input.
\<close>

record request =
  r_method :: http_method
  r_csrf_ok :: bool
  r_full_name :: string
  r_phone :: string
  r_address_line1 :: string
  r_address_line2 :: string
  r_city :: string
  r_state :: string
  r_pincode :: string
  r_notes :: string

definition is_space :: "char \<Rightarrow> bool" where
  "is_space c = (c \<in> set [CHR 0x09, CHR 0x0A, CHR 0x0B, CHR 0x0C, CHR 0x0D,
                            CHR 0x1C, CHR 0x1D, CHR 0x1E, CHR 0x1F, CHR '' ''])"

text \<open>\<^verbatim>\<open>DataRequired\<close> accepts a string that is not empty after \<^verbatim>\<open>strip()\<close>;
  \<^verbatim>\<open>Optional\<close> ends the validation of such a field with success; \<^verbatim>\<open>Length(min, max)\<close>
  bounds the length (no \<^verbatim>\<open>min\<close> is \<open>0\<close>).\<close>

definition data_required :: "string \<Rightarrow> bool" where
  "data_required s = (\<not> list_all is_space s)"

definition length_between :: "nat \<Rightarrow> nat \<Rightarrow> string \<Rightarrow> bool" where
  "length_between lo hi s = (lo \<le> length s \<and> length s \<le> hi)"

definition optional_or :: "string \<Rightarrow> bool \<Rightarrow> bool" where
  "optional_or s rest = (if list_all is_space s then True else rest)"

definition checkout_form_validate :: "request \<Rightarrow> bool" where
  "checkout_form_validate r =
     (data_required (r_full_name r) \<and> length_between 0 120 (r_full_name r) \<and>
      data_required (r_phone r) \<and> length_between 10 20 (r_phone r) \<and>
      data_required (r_address_line1 r) \<and> length_between 0 200 (r_address_line1 r) \<and>
      optional_or (r_address_line2 r) (length_between 0 200 (r_address_line2 r)) \<and>
      data_required (r_city r) \<and> length_between 0 100 (r_city r) \<and>
      data_required (r_state r) \<and> length_between 0 100 (r_state r) \<and>
      data_required (r_pincode r) \<and> length_between 6 10 (r_pincode r))"

text \<open>\<^verbatim>\<open>form.validate_on_submit()\<close>: the route accepts GET and POST, and only a POST is
  a submission.\<close>

definition validate_on_submit :: "request \<Rightarrow> bool" where
  "validate_on_submit r = (r_method r = POST \<and> r_csrf_ok r \<and> checkout_form_validate r)"

section \<open>Order numbers\<close>

text \<open>What the checkout reads from outside the database: the clock, the two random
  UUIDs, and whether the database fails (with an \<^verbatim>\<open>OperationalError\<close>) at one of the
  statements of the transaction.\<close>

record date =
  d_year :: nat
  d_month :: nat
  d_day :: nat

datatype tx_step = AtFlush | AtClearCart | AtCommit

record environment =
  e_now :: date
  e_uuid_order :: "128 word"
  e_uuid_payment :: "128 word"
  e_db_fault :: "tx_step option"

definition digit_char :: "nat \<Rightarrow> char" where
  "digit_char d = ''0123456789'' ! (d mod 10)"

definition hex_char :: "nat \<Rightarrow> char" where
  "hex_char d = ''0123456789abcdef'' ! (d mod 16)"

text \<open>The last \<open>w\<close> decimal digits of \<open>n\<close>, zero-padded: \<^verbatim>\<open>%m\<close> and \<^verbatim>\<open>%d\<close> with
  \<open>w = 2\<close>, \<^verbatim>\<open>%Y\<close> with \<open>w = 4\<close> (a \<^verbatim>\<open>datetime\<close> has a year of 1 to 9999).\<close>

fun zero_padded :: "nat \<Rightarrow> nat \<Rightarrow> string" where
  "zero_padded 0 n = []"
| "zero_padded (Suc w) n = zero_padded w (n div 10) @ [digit_char n]"

definition strftime_Ymd :: "date \<Rightarrow> string" where
  "strftime_Ymd d = zero_padded 4 (d_year d) @ zero_padded 2 (d_month d) @ zero_padded 2 (d_day d)"

text \<open>\<^verbatim>\<open>uuid.hex\<close>: the 32 lowercase hexadecimal digits of the 128-bit value, the most
  significant first.\<close>

definition uuid_hex :: "128 word \<Rightarrow> string" where
  "uuid_hex u = map (\<lambda>i. hex_char (unat (take_bit 4 (drop_bit (4 * (31 - i)) u)))) [0..<32]"

definition upper_char :: "char \<Rightarrow> char" where
  "upper_char c =
     (case map_of (zip ''abcdefghijklmnopqrstuvwxyz'' ''ABCDEFGHIJKLMNOPQRSTUVWXYZ'') c of
        Some C \<Rightarrow> C
      | None \<Rightarrow> c)"

definition upper :: "string \<Rightarrow> string" where
  "upper s = map upper_char s"

definition make_order_number :: "environment \<Rightarrow> string" where
  "make_order_number env =
     ''ORD-'' @ strftime_Ymd (e_now env) @ ''-'' @ upper (take 8 (uuid_hex (e_uuid_order env)))"

definition make_payment_id :: "environment \<Rightarrow> string" where
  "make_payment_id env = ''pay_'' @ take 16 (uuid_hex (e_uuid_payment env))"

section \<open>The checkout view (blueprints/checkout.py)\<close>

record totals =
  t_subtotal :: pyfloat
  t_tax_amount :: pyfloat
  t_shipping_cost :: pyfloat
  t_total_amount :: pyfloat

text \<open>Line 27: the sum of the cart lines' subtotals; the first line whose product is
  gone raises.\<close>

fun sum_subtotals :: "database \<Rightarrow> pyfloat \<Rightarrow> cart_item list \<Rightarrow> py_error + pyfloat" where
  "sum_subtotals db acc [] = Inr acc"
| "sum_subtotals db acc (item # items) =
     (case get_subtotal db item of
        Inl e \<Rightarrow> Inl e
      | Inr s \<Rightarrow> sum_subtotals db (fadd acc s) items)"

text \<open>Lines 28 to 31.\<close>

definition calculate_totals :: "pyfloat \<Rightarrow> totals" where
  "calculate_totals subtotal =
     (let tax_rate = to_double (5 / 100);
          tax_amount = py_round2 (fmul subtotal tax_rate);
          shipping_cost = (if 500 < subtotal then 0 else 50);
          total_amount = fadd (fadd subtotal tax_amount) shipping_cost
      in \<lparr>t_subtotal = subtotal, t_tax_amount = tax_amount,
          t_shipping_cost = shipping_cost, t_total_amount = total_amount\<rparr>)"

text \<open>The pricing of a list of (unit price, quantity) pairs, as lines 27 to 31 compute it
  from the cart lines.\<close>

definition pricing :: "(pyfloat \<times> int) list \<Rightarrow> totals" where
  "pricing lines = calculate_totals (py_sum (map (\<lambda>(price, quantity). line_subtotal price quantity) lines))"

text \<open>Lines 51 to 70: the order row. \<^verbatim>\<open>discount_amount\<close> is not passed and takes the
  column's default \<open>0\<close>; the primary key is assigned by the flush.\<close>

definition new_order :: "nat \<Rightarrow> string \<Rightarrow> environment \<Rightarrow> nat \<Rightarrow> request \<Rightarrow> totals \<Rightarrow> order" where
  "new_order oid order_number env uid r t =
     \<lparr>o_id = oid,
      o_order_number = order_number,
      o_status = ''confirmed'',
      o_payment_method = ''razorpay_mock'',
      o_payment_status = ''paid'',
      o_payment_id = make_payment_id env,
      o_subtotal = t_subtotal t,
      o_tax_amount = t_tax_amount t,
      o_shipping_cost = t_shipping_cost t,
      o_discount_amount = 0,
      o_total_amount = t_total_amount t,
      o_shipping_full_name = r_full_name r,
      o_shipping_phone = r_phone r,
      o_shipping_address_line1 = r_address_line1 r,
      o_shipping_address_line2 = r_address_line2 r,
      o_shipping_city = r_city r,
      o_shipping_state = r_state r,
      o_shipping_pincode = r_pincode r,
      o_notes = r_notes r,
      o_user_id = uid\<rparr>"

definition next_order_id :: "database \<Rightarrow> nat" where
  "next_order_id db = Suc (fold max (map o_id (orders db)) 0)"

text \<open>Lines 71 and 72: the flush inserts the order; the unique index on
  \<^verbatim>\<open>order_number\<close> rejects a number that is taken.\<close>

definition flush_order :: "database \<Rightarrow> environment \<Rightarrow> order \<Rightarrow> py_error + database" where
  "flush_order db env ord =
     (if e_db_fault env = Some AtFlush then Inl OperationalError
      else if o_order_number ord \<in> set (map o_order_number (orders db)) then Inl IntegrityError
      else Inr (db\<lparr>orders := orders db @ [ord]\<rparr>))"

text \<open>Lines 75 to 89: one order item per cart line, and the stock of its product
  decremented by the line's quantity.\<close>

fun create_order_items :: "database \<Rightarrow> nat \<Rightarrow> cart_item list \<Rightarrow> py_error + database" where
  "create_order_items db oid [] = Inr db"
| "create_order_items db oid (item # items) =
     (case products db (ci_product_id item) of
        None \<Rightarrow> Inl AttributeError
      | Some p \<Rightarrow>
          let order_item =
                \<lparr>oi_quantity = ci_quantity item,
                 oi_unit_price = get_discounted_price p,
                 oi_subtotal = line_subtotal (get_discounted_price p) (ci_quantity item),
                 oi_product_name = p_name p,
                 oi_product_size = p_size p,
                 oi_product_sku = p_sku p,
                 oi_order_id = oid,
                 oi_product_id = ci_product_id item\<rparr>;
              p' = p\<lparr>p_stock_quantity := p_stock_quantity p - ci_quantity item\<rparr>
          in create_order_items
               (db\<lparr>products := (products db)(ci_product_id item \<mapsto> p'),
                   order_items := order_items db @ [order_item]\<rparr>)
               oid items)"

text \<open>Line 92.\<close>

definition clear_cart :: "database \<Rightarrow> environment \<Rightarrow> nat \<Rightarrow> py_error + database" where
  "clear_cart db env uid =
     (if e_db_fault env = Some AtClearCart then Inl OperationalError
      else Inr (db\<lparr>cart_items := filter (\<lambda>c. ci_user_id c \<noteq> uid) (cart_items db)\<rparr>))"

text \<open>Line 95.\<close>

definition commit :: "database \<Rightarrow> environment \<Rightarrow> py_error + database" where
  "commit db env = (if e_db_fault env = Some AtCommit then Inl OperationalError else Inr db)"

text \<open>Lines 47 to 95, the body of the \<^verbatim>\<open>try\<close>: the order number and the database as
  committed, or the exception raised.\<close>

definition place_order ::
  "database \<Rightarrow> environment \<Rightarrow> nat \<Rightarrow> request \<Rightarrow> cart_item list \<Rightarrow> totals \<Rightarrow> py_error + string \<times> database" where
  "place_order db env uid r cart t =
     (let order_number = make_order_number env;
          ord = new_order (next_order_id db) order_number env uid r t
      in case flush_order db env ord of
           Inl e \<Rightarrow> Inl e
         | Inr db1 \<Rightarrow>
             (case create_order_items db1 (o_id ord) cart of
                Inl e \<Rightarrow> Inl e
              | Inr db2 \<Rightarrow>
                  (case clear_cart db2 env uid of
                     Inl e \<Rightarrow> Inl e
                   | Inr db3 \<Rightarrow>
                       (case commit db3 env of
                          Inl e \<Rightarrow> Inl e
                        | Inr db4 \<Rightarrow> Inr (order_number, db4)))))"

text \<open>
  The responses of the view:
  \<^item> \<open>CartEmpty\<close>: the flash \<^verbatim>\<open>Your cart is empty.\<close> and the redirect to the product list
    (lines 22 to 24);
  \<^item> \<open>CheckoutPage\<close>: the checkout page with the totals (line 105), on a GET or a form
    that does not validate;
  \<^item> \<open>OrderPlaced\<close>: the flash \<^verbatim>\<open>Order placed successfully!\<close> and the redirect to the
    confirmation of the order number (lines 97 and 98);
  \<^item> \<open>OrderFailed\<close>: the handler of lines 100 to 103, after the rollback: the flash
    \<^verbatim>\<open>An error occurred while processing your order. Please try again.\<close> and the redirect
    to the checkout;
  \<^item> \<open>Unhandled\<close>: an exception raised outside the \<^verbatim>\<open>try\<close>, which leaves the view; the
    session is discarded with the request.
\<close>

datatype response =
    CartEmpty
  | CheckoutPage totals
  | OrderPlaced string
  | OrderFailed
  | Unhandled py_error

definition checkout :: "database \<Rightarrow> environment \<Rightarrow> nat \<Rightarrow> request \<Rightarrow> response \<times> database" where
  "checkout db env uid r =
     (let cart = filter (\<lambda>c. ci_user_id c = uid) (cart_items db)
      in if cart = [] then (CartEmpty, db)
         else case sum_subtotals db 0 cart of
                Inl e \<Rightarrow> (Unhandled e, db)
              | Inr subtotal \<Rightarrow>
                  let t = calculate_totals subtotal
                  in if validate_on_submit r
                     then (case place_order db env uid r cart t of
                             Inl e \<Rightarrow> (OrderFailed, db)
                           | Inr (order_number, db') \<Rightarrow> (OrderPlaced order_number, db'))
                     else (CheckoutPage t, db))"

section \<open>The specification's wording, and example data\<close>


definition example_product :: "pyfloat \<Rightarrow> pyfloat \<Rightarrow> int \<Rightarrow> bool \<Rightarrow> product" where
  "example_product price discount stock active =
     \<lparr>p_name = ''Rice Bran Oil'', p_size = ''1L'', p_sku = ''RBO-1L'', p_price = price,
      p_discount_percentage = discount, p_stock_quantity = stock, p_is_active = active\<rparr>"

text \<open>A shop with one product (of id 1), and cart lines for it.\<close>

definition cart_line :: "nat \<Rightarrow> int \<Rightarrow> cart_item" where
  "cart_line uid quantity =
     \<lparr>ci_id = uid, ci_quantity = quantity, ci_user_id = uid, ci_product_id = 1\<rparr>"

definition example_db :: "product \<Rightarrow> cart_item list \<Rightarrow> order list \<Rightarrow> database" where
  "example_db p cart os =
     \<lparr>products = [1 \<mapsto> p], cart_items = cart, orders = os, order_items = []\<rparr>"

text \<open>Requests on 9 March 2024, with the UUIDs
  \<^verbatim>\<open>1a2b3c4d-5e6f-4081-92a3-b4c5d6e7f809\<close> and \<^verbatim>\<open>0f1e2d3c-4b5a-4978-8695-a4b3c2d1e0ff\<close>,
  and later the same day with two others.\<close>

definition example_env :: "tx_step option \<Rightarrow> environment" where
  "example_env fault =
     \<lparr>e_now = \<lparr>d_year = 2024, d_month = 3, d_day = 9\<rparr>,
      e_uuid_order = 0x1a2b3c4d5e6f408192a3b4c5d6e7f809,
      e_uuid_payment = 0x0f1e2d3c4b5a49788695a4b3c2d1e0ff,
      e_db_fault = fault\<rparr>"

definition second_env :: environment where
  "second_env =
     \<lparr>e_now = \<lparr>d_year = 2024, d_month = 3, d_day = 9\<rparr>,
      e_uuid_order = 0x9c8b7a6d5e4f4a3b8c2d1e0f9a8b7c6d,
      e_uuid_payment = 0x5d4c3b2a19084f7e8d6c5b4a39281706,
      e_db_fault = None\<rparr>"

definition example_request :: "http_method \<Rightarrow> request" where
  "example_request m =
     \<lparr>r_method = m, r_csrf_ok = True, r_full_name = ''Test User'', r_phone = ''1234567890'',
      r_address_line1 = ''123 Test St'', r_address_line2 = ''Unit 1'', r_city = ''Test City'',
      r_state = ''Test State'', r_pincode = ''123456'', r_notes = ''Leave at door''\<rparr>"

text \<open>The (unit price, quantity) pairs of cart lines, as the pricing reads them; a line
  whose product is gone has none.\<close>

definition cart_lines :: "database \<Rightarrow> cart_item list \<Rightarrow> (pyfloat \<times> int) list" where
  "cart_lines db items =
     concat (map (\<lambda>item. case products db (ci_product_id item) of
                            None \<Rightarrow> []
                          | Some p \<Rightarrow> [(get_discounted_price p, ci_quantity item)]) items)"

section \<open>Facts about rounding\<close>

lemma pow2_pos: "0 < pow2 k"
  by (simp add: pow2_def)

lemma round_half_even_nonneg: "0 \<le> x \<Longrightarrow> 0 \<le> round_half_even x"
  by (auto simp: round_half_even_def Let_def)

lemma round_half_even_nonpos: "x \<le> 0 \<Longrightarrow> round_half_even x \<le> 0"
proof -
  assume x: "x \<le> 0"
  show ?thesis
  proof (cases "x = of_int \<lfloor>x\<rfloor>")
    case True
    then have "x - of_int \<lfloor>x\<rfloor> = 0" by simp
    moreover have "\<lfloor>x\<rfloor> \<le> 0" using x by (simp add: floor_le_iff)
    ultimately show ?thesis by (simp add: round_half_even_def Let_def)
  next
    case False
    have "of_int \<lfloor>x\<rfloor> \<le> x" by simp
    with False have "of_int \<lfloor>x\<rfloor> < x" by linarith
    with x have "of_int \<lfloor>x\<rfloor> < (0::rat)" by linarith
    then have "\<lfloor>x\<rfloor> < 0" by simp
    then show ?thesis by (auto simp: round_half_even_def Let_def)
  qed
qed

lemma round_half_even_le: "x \<le> of_int n \<Longrightarrow> round_half_even x \<le> n"
proof -
  assume le: "x \<le> of_int n"
  then have fl: "\<lfloor>x\<rfloor> \<le> n" by (simp add: floor_le_iff)
  show ?thesis
  proof (cases "\<lfloor>x\<rfloor> = n")
    case True
    have "of_int \<lfloor>x\<rfloor> \<le> x" by simp
    with True le have "x = of_int n" by simp
    then show ?thesis by (simp add: round_half_even_def Let_def)
  next
    case False
    with fl have "\<lfloor>x\<rfloor> + 1 \<le> n" by simp
    then show ?thesis by (auto simp: round_half_even_def Let_def)
  qed
qed

lemma to_double_nonneg: "0 \<le> x \<Longrightarrow> 0 \<le> to_double x"
  by (simp add: to_double_def Let_def round_half_even_nonneg pow2_pos less_imp_le)

lemma to_double_nonpos: "x \<le> 0 \<Longrightarrow> to_double x \<le> 0"
proof -
  assume x: "x \<le> 0"
  have "\<And>q. (of_int (round_half_even (x / pow2 q)) :: rat) \<le> 0"
    using x by (simp add: round_half_even_nonpos divide_nonpos_pos pow2_pos)
  then show ?thesis
    by (simp add: to_double_def Let_def mult_nonpos_nonneg pow2_pos less_imp_le)
qed

lemma float_exponent_le_0: "\<bar>x\<bar> \<le> 1 \<Longrightarrow> float_exponent x \<le> 0"
proof -
  assume a: "\<bar>x\<bar> \<le> 1"
  show ?thesis
  proof (cases "1 \<le> \<bar>x\<bar>")
    case True
    with a have "\<bar>x\<bar> = 1" by simp
    then show ?thesis by (simp add: float_exponent_def Let_def bitlen_alt_def)
  next
    case False
    then show ?thesis by (simp add: float_exponent_def Let_def bitlen_nonneg)
  qed
qed

lemma to_double_le_1: "x \<le> 1 \<Longrightarrow> to_double x \<le> 1"
proof (cases "x \<le> 0")
  case True
  then have "to_double x \<le> 0" by (rule to_double_nonpos)
  then show ?thesis by simp
next
  case False
  assume le: "x \<le> 1"
  from False have pos: "0 < x" by simp
  define q where "q = max (float_exponent x - 52) (- 1074)"
  have "float_exponent x \<le> 0" using pos le by (intro float_exponent_le_0) simp
  then have q: "q < 0" by (simp add: q_def)
  define n where "n = nat (- q)"
  have p: "pow2 q = 1 / 2 ^ n" using q by (simp add: pow2_def n_def)
  have "x / pow2 q = x * 2 ^ n" by (simp add: p)
  also have "\<dots> \<le> 1 * 2 ^ n" using le by (intro mult_right_mono) simp_all
  finally have "x / pow2 q \<le> of_int (2 ^ n)" by simp
  then have "round_half_even (x / pow2 q) \<le> 2 ^ n" by (rule round_half_even_le)
  then have "(of_int (round_half_even (x / pow2 q)) :: rat) \<le> of_int (2 ^ n)"
    by (simp only: of_int_le_iff)
  then have "of_int (round_half_even (x / pow2 q)) * pow2 q \<le> of_int (2 ^ n) * pow2 q"
    by (intro mult_right_mono) (simp_all add: pow2_pos less_imp_le)
  also have "of_int (2 ^ n) * pow2 q = 1" by (simp add: p)
  finally show ?thesis using pos by (simp add: to_double_def Let_def q_def)
qed

lemma py_round2_nonneg: "0 \<le> x \<Longrightarrow> 0 \<le> py_round2 x"
  by (simp add: py_round2_def to_double_nonneg round_half_even_nonneg)

lemma get_discounted_price_nonneg:
  assumes "0 \<le> p_price p" and "p_discount_percentage p \<le> 100"
  shows "0 \<le> get_discounted_price p"
proof (cases "0 < p_discount_percentage p")
  case True
  have "fdiv (p_discount_percentage p) 100 \<le> 1"
    unfolding fdiv_def using assms(2) by (intro to_double_le_1) simp
  then have "0 \<le> fsub 1 (fdiv (p_discount_percentage p) 100)"
    unfolding fsub_def by (intro to_double_nonneg) simp
  then have "0 \<le> fmul (p_price p) (fsub 1 (fdiv (p_discount_percentage p) 100))"
    unfolding fmul_def using assms(1) by (intro to_double_nonneg) simp
  then show ?thesis using True by (simp add: get_discounted_price_def py_round2_nonneg)
next
  case False
  then show ?thesis using assms(1) by (simp add: get_discounted_price_def)
qed

section \<open>Facts about the checkout\<close>

lemma create_order_items_frame:
  "create_order_items db oid items = Inr db' \<Longrightarrow>
     orders db' = orders db \<and> cart_items db' = cart_items db"
proof (induction items arbitrary: db)
  case Nil
  then show ?case by simp
next
  case (Cons item items)
  then show ?case
    by (cases "products db (ci_product_id item)") (auto simp: Let_def)
qed

lemma checkout_placedD:
  assumes "fst (checkout db env uid r) = OrderPlaced n"
  shows "\<exists>s db2. sum_subtotals db 0 (filter (\<lambda>c. ci_user_id c = uid) (cart_items db)) = Inr s
           \<and> filter (\<lambda>c. ci_user_id c = uid) (cart_items db) \<noteq> []
           \<and> validate_on_submit r
           \<and> n = make_order_number env
           \<and> e_db_fault env = None
           \<and> n \<notin> set (map o_order_number (orders db))
           \<and> create_order_items
                (db\<lparr>orders := orders db @ [new_order (next_order_id db) n env uid r (calculate_totals s)]\<rparr>)
                (next_order_id db) (filter (\<lambda>c. ci_user_id c = uid) (cart_items db)) = Inr db2
           \<and> snd (checkout db env uid r)
                = db2\<lparr>cart_items := filter (\<lambda>c. ci_user_id c \<noteq> uid) (cart_items db2)\<rparr>"
proof -
  have fault: "e_db_fault env = None"
  proof (cases "e_db_fault env")
    case None
    then show ?thesis .
  next
    case (Some step)
    with assms show ?thesis
      by (cases step)
         (auto simp: checkout_def place_order_def flush_order_def clear_cart_def commit_def Let_def
            split: if_splits sum.splits prod.splits)
  qed
  with assms show ?thesis
    by (auto simp: checkout_def place_order_def flush_order_def clear_cart_def commit_def Let_def
          new_order_def
        split: if_splits sum.splits prod.splits)
qed

lemma checkout_placed_orders:
  assumes "fst (checkout db env uid r) = OrderPlaced n"
  shows "\<exists>s. sum_subtotals db 0 (filter (\<lambda>c. ci_user_id c = uid) (cart_items db)) = Inr s
           \<and> n = make_order_number env
           \<and> orders (snd (checkout db env uid r))
               = orders db @ [new_order (next_order_id db) n env uid r (calculate_totals s)]"
proof -
  from checkout_placedD [OF assms] obtain s db2 where
    s: "sum_subtotals db 0 (filter (\<lambda>c. ci_user_id c = uid) (cart_items db)) = Inr s"
    and n: "n = make_order_number env"
    and c: "create_order_items
                (db\<lparr>orders := orders db @ [new_order (next_order_id db) n env uid r (calculate_totals s)]\<rparr>)
                (next_order_id db) (filter (\<lambda>c. ci_user_id c = uid) (cart_items db)) = Inr db2"
    and e: "snd (checkout db env uid r)
                = db2\<lparr>cart_items := filter (\<lambda>c. ci_user_id c \<noteq> uid) (cart_items db2)\<rparr>"
    by blast
  from create_order_items_frame [OF c] e s n show ?thesis by simp
qed

lemma sum_subtotals_py_sum:
  "sum_subtotals db acc items = Inr s \<Longrightarrow>
     s = foldl fadd acc (map (\<lambda>(price, quantity). line_subtotal price quantity) (cart_lines db items))"
proof (induction items arbitrary: acc)
  case Nil
  then show ?case by (simp add: cart_lines_def)
next
  case (Cons item items)
  show ?case
  proof (cases "products db (ci_product_id item)")
    case None
    with Cons.prems show ?thesis by (simp add: get_subtotal_def)
  next
    case (Some p)
    with Cons.prems have
      "sum_subtotals db (fadd acc (line_subtotal (get_discounted_price p) (ci_quantity item))) items = Inr s"
      by (simp add: get_subtotal_def)
    from Cons.IH [OF this] Some show ?thesis by (simp add: cart_lines_def)
  qed
qed

lemma checkout_page_pricing:
  assumes "fst (checkout db env uid r) = CheckoutPage t"
  shows "t = pricing (cart_lines db (filter (\<lambda>c. ci_user_id c = uid) (cart_items db)))"
proof -
  from assms obtain s where
    s: "sum_subtotals db 0 (filter (\<lambda>c. ci_user_id c = uid) (cart_items db)) = Inr s"
    and t: "t = calculate_totals s"
    by (auto simp: checkout_def Let_def split: if_splits sum.splits prod.splits)
  from sum_subtotals_py_sum [OF s] t show ?thesis by (simp add: pricing_def py_sum_def)
qed

lemma checkout_order_pricing:
  assumes "fst (checkout db env uid r) = OrderPlaced n"
  shows "\<exists>ord. orders (snd (checkout db env uid r)) = orders db @ [ord]
           \<and> \<lparr>t_subtotal = o_subtotal ord, t_tax_amount = o_tax_amount ord,
               t_shipping_cost = o_shipping_cost ord, t_total_amount = o_total_amount ord\<rparr>
               = pricing (cart_lines db (filter (\<lambda>c. ci_user_id c = uid) (cart_items db)))"
proof -
  from checkout_placed_orders [OF assms] obtain s where
    s: "sum_subtotals db 0 (filter (\<lambda>c. ci_user_id c = uid) (cart_items db)) = Inr s"
    and o: "orders (snd (checkout db env uid r))
              = orders db @ [new_order (next_order_id db) n env uid r (calculate_totals s)]"
    by blast
  from sum_subtotals_py_sum [OF s]
  have "calculate_totals s = pricing (cart_lines db (filter (\<lambda>c. ci_user_id c = uid) (cart_items db)))"
    by (simp add: pricing_def py_sum_def)
  with o show ?thesis by (simp add: new_order_def)
qed

text \<open>The stock is decremented whatever it is: no comparison with the quantity.\<close>

lemma checkout_decrements_single_line:
  assumes "fst (checkout db env uid r) = OrderPlaced n"
    and "filter (\<lambda>c. ci_user_id c = uid) (cart_items db) = [item]"
    and "products db (ci_product_id item) = Some p"
  shows "products (snd (checkout db env uid r)) (ci_product_id item)
           = Some (p\<lparr>p_stock_quantity := p_stock_quantity p - ci_quantity item\<rparr>)"
proof -
  from checkout_placedD [OF assms(1)] obtain s db2 where
    c: "create_order_items
          (db\<lparr>orders := orders db @ [new_order (next_order_id db) n env uid r (calculate_totals s)]\<rparr>)
          (next_order_id db) (filter (\<lambda>c. ci_user_id c = uid) (cart_items db)) = Inr db2"
    and e: "snd (checkout db env uid r)
              = db2\<lparr>cart_items := filter (\<lambda>c. ci_user_id c \<noteq> uid) (cart_items db2)\<rparr>"
    by blast
  from c assms(2,3) have
    "products db2 (ci_product_id item)
       = Some (p\<lparr>p_stock_quantity := p_stock_quantity p - ci_quantity item\<rparr>)"
    by (auto simp: Let_def)
  with e show ?thesis by simp
qed

text \<open>The definitions a concrete checkout unfolds, the float arithmetic left alone.\<close>

lemmas checkout_eval =
  checkout_def place_order_def flush_order_def clear_cart_def commit_def Let_def new_order_def
  next_order_id_def get_subtotal_def validate_on_submit_def checkout_form_validate_def
  data_required_def length_between_def optional_or_def is_space_def
  example_db_def cart_line_def example_env_def second_env_def example_request_def

lemma order_number_example: "make_order_number (example_env fault) = ''ORD-20240309-1A2B3C4D''"
  unfolding example_env_def by code_simp

lemma checkout_missing_product:
  "checkout ((example_db (example_product 100 0 5 True) [cart_line 1 2] [])\<lparr>products := Map.empty\<rparr>)
     (example_env None) 1 (example_request POST)
   = (Unhandled AttributeError,
      (example_db (example_product 100 0 5 True) [cart_line 1 2] [])\<lparr>products := Map.empty\<rparr>)"
  by (simp add: checkout_eval)

section \<open>Facts about order numbers\<close>

lemma digit_char_digit: "digit_char d \<in> set ''0123456789''"
proof -
  have "d mod 10 < length ''0123456789''" by simp
  then have "''0123456789'' ! (d mod 10) \<in> set ''0123456789''" by (rule nth_mem)
  then show ?thesis by (simp only: digit_char_def)
qed

lemma hex_char_hex: "hex_char d \<in> set ''0123456789abcdef''"
proof -
  have "d mod 16 < length ''0123456789abcdef''" by simp
  then have "''0123456789abcdef'' ! (d mod 16) \<in> set ''0123456789abcdef''" by (rule nth_mem)
  then show ?thesis by (simp only: hex_char_def)
qed

lemma zero_padded_length: "length (zero_padded w n) = w"
  by (induction w arbitrary: n) simp_all

lemma zero_padded_digits: "list_all (\<lambda>c. c \<in> set ''0123456789'') (zero_padded w n)"
proof (induction w arbitrary: n)
  case 0
  show ?case by simp
next
  case (Suc w)
  from Suc [of "n div 10"] digit_char_digit [of n] show ?case
    by (simp add: list_all_iff)
qed

lemma strftime_Ymd_shape:
  "length (strftime_Ymd d) = 8 \<and> list_all (\<lambda>c. c \<in> set ''0123456789'') (strftime_Ymd d)"
  unfolding strftime_Ymd_def
  by (simp only: length_append zero_padded_length list_all_append zero_padded_digits) simp

lemma upper_char_hex:
  "c \<in> set ''0123456789abcdef'' \<Longrightarrow> upper_char c \<in> set ''0123456789ABCDEF''"
proof -
  have "\<forall>c \<in> set ''0123456789abcdef''. upper_char c \<in> set ''0123456789ABCDEF''"
    by code_simp
  then show "c \<in> set ''0123456789abcdef'' \<Longrightarrow> upper_char c \<in> set ''0123456789ABCDEF''"
    by (rule bspec)
qed

lemma second_order_number: "make_order_number second_env = ''ORD-20240309-9C8B7A6D''"
  unfolding second_env_def by code_simp

lemma uuid_suffix_shape:
  "length (upper (take 8 (uuid_hex u))) = 8
   \<and> list_all (\<lambda>c. c \<in> set ''0123456789ABCDEF'') (upper (take 8 (uuid_hex u)))"
proof -
  have len: "length (uuid_hex u) = 32" by (simp add: uuid_hex_def)
  have "\<forall>c \<in> set (uuid_hex u). c \<in> set ''0123456789abcdef''"
    unfolding uuid_hex_def using hex_char_hex by (auto simp only: set_map)
  then have "\<forall>c \<in> set (take 8 (uuid_hex u)). upper_char c \<in> set ''0123456789ABCDEF''"
    using upper_char_hex by (blast dest: in_set_takeD)
  then have "list_all (\<lambda>c. c \<in> set ''0123456789ABCDEF'') (upper (take 8 (uuid_hex u)))"
    by (simp only: upper_def list_all_iff set_map) blast
  with len show ?thesis by (simp add: upper_def)
qed

section \<open>The discounted price\<close>

text \<open>
  C9, as stated: the discounted unit price is \<^verbatim>\<open>round(price * (1 - discount / 100), 2)\<close>,
  also at a discount of 0. It is not: \<^verbatim>\<open>get_discounted_price\<close> rounds only under its
  guard \<^verbatim>\<open>discount_percentage > 0\<close>. A product priced 19.999 with no discount has the
  discounted price 19.999, where the formula of the claim gives 20.0.
\<close>

theorem discounted_price_unrounded_counterexample:
  "get_discounted_price (example_product (to_double (19999 / 1000)) 0 5 True) = to_double (19999 / 1000)
   \<and> py_round2 (fmul (to_double (19999 / 1000)) (fsub 1 (fdiv 0 100))) = 20
   \<and> get_discounted_price (example_product (to_double (19999 / 1000)) 0 5 True)
       \<noteq> py_round2 (fmul (to_double (19999 / 1000)) (fsub 1 (fdiv 0 100)))"
  by code_simp

text \<open>
  C9, amended: for a price of at least 0 and a discount percentage from 0 to 100, the
  discounted unit price is \<^verbatim>\<open>round(price * (1 - discount / 100), 2)\<close> when the discount is
  positive and the price itself, not rounded, when the discount is 0; it is never negative.
\<close>

theorem get_discounted_price_correct:
  assumes "0 \<le> p_price p" and "0 \<le> p_discount_percentage p" and "p_discount_percentage p \<le> 100"
  shows "get_discounted_price p =
           (if 0 < p_discount_percentage p
            then py_round2 (fmul (p_price p) (fsub 1 (fdiv (p_discount_percentage p) 100)))
            else p_price p)
         \<and> 0 \<le> get_discounted_price p"
  using get_discounted_price_nonneg [OF assms(1) assms(3)]
  by (simp add: get_discounted_price_def)

theorem get_discounted_price_correct_witness:
  "get_discounted_price (example_product 100 10 5 True) = 90
   \<and> 0 \<le> get_discounted_price (example_product 100 10 5 True)"
proof -
  have v: "py_round2 (fmul 100 (fsub 1 (fdiv 10 100))) = 90" by code_simp
  show ?thesis
    using get_discounted_price_correct [of "example_product 100 10 5 True"] v
    by (simp add: example_product_def)
qed

section \<open>The pricing of a cart\<close>



section \<open>The transaction\<close>

text \<open>
  C2: a checkout that does not place the order (the cart is empty, the form is not
  submitted or not valid, a product of the cart is gone, or a statement of the transaction
  raises and the handler rolls back) leaves the database as it was: no order, no order
  item, no change of stock, the cart lines as before.
\<close>

theorem checkout_all_or_nothing:
  "\<forall>n. fst (checkout db env uid r) \<noteq> OrderPlaced n \<Longrightarrow> snd (checkout db env uid r) = db"
  by (auto simp: checkout_def Let_def split: if_splits sum.splits prod.splits)

theorem checkout_all_or_nothing_witness:
  "fst (checkout (example_db (example_product 100 10 5 True) [cart_line 1 2] [])
          (example_env (Some AtCommit)) 1 (example_request POST)) = OrderFailed
   \<and> snd (checkout (example_db (example_product 100 10 5 True) [cart_line 1 2] [])
          (example_env (Some AtCommit)) 1 (example_request POST))
       = example_db (example_product 100 10 5 True) [cart_line 1 2] []"
proof -
  have f: "fst (checkout (example_db (example_product 100 10 5 True) [cart_line 1 2] [])
          (example_env (Some AtCommit)) 1 (example_request POST)) = OrderFailed"
    by (simp add: checkout_eval)
  then show ?thesis
    using checkout_all_or_nothing [of "example_db (example_product 100 10 5 True) [cart_line 1 2] []"
        "example_env (Some AtCommit)" 1 "example_request POST"]
    by simp
qed

section \<open>The totals of an order\<close>

text \<open>
  C5, as stated: the total of an order equals
  \<^verbatim>\<open>round(subtotal + tax_amount + shipping_cost - discount_amount, 2)\<close>. The checkout stores
  the float sum \<^verbatim>\<open>subtotal + tax_amount + shipping_cost\<close> as it is. For two units of a
  product priced 2.25 the order has subtotal 4.5, tax 0.23 and shipping 50, and the total
  stored is 54.730000000000004, where the rounded sum is 54.73.
\<close>

theorem order_total_unrounded_counterexample:
  "fst (checkout (example_db (example_product (to_double (9 / 4)) 0 50 True) [cart_line 1 2] [])
          (example_env None) 1 (example_request POST)) = OrderPlaced ''ORD-20240309-1A2B3C4D''
   \<and> map o_total_amount
        (orders (snd (checkout (example_db (example_product (to_double (9 / 4)) 0 50 True) [cart_line 1 2] [])
          (example_env None) 1 (example_request POST))))
       = [3851281368843551 / 70368744177664]
   \<and> map (\<lambda>ord. py_round2 (fsub (fadd (fadd (o_subtotal ord) (o_tax_amount ord)) (o_shipping_cost ord))
                  (o_discount_amount ord)))
        (orders (snd (checkout (example_db (example_product (to_double (9 / 4)) 0 50 True) [cart_line 1 2] [])
          (example_env None) 1 (example_request POST))))
       = [7702562737687101 / 140737488355328]"
proof -
  let ?db = "example_db (example_product (to_double (9 / 4)) 0 50 True) [cart_line 1 2] []"
  have placed: "fst (checkout ?db (example_env None) 1 (example_request POST))
                  = OrderPlaced ''ORD-20240309-1A2B3C4D''"
    using order_number_example [of None] by (simp add: checkout_eval)
  have s: "sum_subtotals ?db 0 (filter (\<lambda>c. ci_user_id c = 1) (cart_items ?db))
             = Inr (fadd 0 (line_subtotal (to_double (9 / 4)) 2))"
    by (simp add: checkout_eval example_product_def get_discounted_price_def)
  have t: "calculate_totals (fadd 0 (line_subtotal (to_double (9 / 4)) 2))
             = \<lparr>t_subtotal = 9 / 2, t_tax_amount = 8286623314361713 / 36028797018963968,
                t_shipping_cost = 50, t_total_amount = 3851281368843551 / 70368744177664\<rparr>"
    by code_simp
  have r: "py_round2 (fsub (fadd (fadd (9 / 2) (8286623314361713 / 36028797018963968)) 50) 0)
             = 7702562737687101 / 140737488355328"
    by code_simp
  from checkout_placed_orders [OF placed] s
  have "orders (snd (checkout ?db (example_env None) 1 (example_request POST)))
          = orders ?db @ [new_order (next_order_id ?db) ''ORD-20240309-1A2B3C4D'' (example_env None) 1
               (example_request POST) (calculate_totals (fadd 0 (line_subtotal (to_double (9 / 4)) 2)))]"
    by auto
  then show ?thesis using placed r unfolding t
    by (simp add: new_order_def example_db_def)
qed

text \<open>
  C5, amended: every order of a successful checkout has \<^verbatim>\<open>discount_amount\<close> 0 and
  \<^verbatim>\<open>total_amount\<close> equal to the float sum \<^verbatim>\<open>subtotal + tax_amount + shipping_cost\<close> of
  its own fields, which is stored without a final rounding.
\<close>

theorem order_total_identity:
  assumes "fst (checkout db env uid r) = OrderPlaced n"
  shows "\<exists>ord. orders (snd (checkout db env uid r)) = orders db @ [ord]
           \<and> o_order_number ord = n
           \<and> o_discount_amount ord = 0
           \<and> o_total_amount ord = fadd (fadd (o_subtotal ord) (o_tax_amount ord)) (o_shipping_cost ord)"
  using checkout_placed_orders [OF assms]
  by (auto simp: new_order_def calculate_totals_def Let_def)

theorem order_total_identity_witness:
  "fst (checkout (example_db (example_product 100 10 5 True) [cart_line 1 2] [])
          (example_env None) 1 (example_request POST)) = OrderPlaced ''ORD-20240309-1A2B3C4D''
   \<and> (\<exists>ord. orders (snd (checkout (example_db (example_product 100 10 5 True) [cart_line 1 2] [])
                (example_env None) 1 (example_request POST))) = [] @ [ord]
           \<and> o_order_number ord = ''ORD-20240309-1A2B3C4D''
           \<and> o_discount_amount ord = 0
           \<and> o_total_amount ord = fadd (fadd (o_subtotal ord) (o_tax_amount ord)) (o_shipping_cost ord))"
proof -
  have f: "fst (checkout (example_db (example_product 100 10 5 True) [cart_line 1 2] [])
          (example_env None) 1 (example_request POST)) = OrderPlaced ''ORD-20240309-1A2B3C4D''"
    using order_number_example [of None] by (simp add: checkout_eval)
  have od: "orders (example_db (example_product 100 10 5 True) [cart_line 1 2] []) = []"
    by (simp add: example_db_def)
  from order_total_identity [OF f] f show ?thesis unfolding od by blast
qed

section \<open>The empty cart\<close>

text \<open>
  C6: the checkout of a user with no cart line answers with the flash
  \<^verbatim>\<open>Your cart is empty.\<close> and the redirect to the product list (\<open>CartEmpty\<close>, the
  \<^verbatim>\<open>EmptyCart\<close> of the specification), and leaves the database as it was, so no order is
  created; with at least one cart line the checkout goes past this step.
\<close>

theorem checkout_empty_cart:
  "(filter (\<lambda>c. ci_user_id c = uid) (cart_items db) = [] \<longrightarrow> checkout db env uid r = (CartEmpty, db))
   \<and> (filter (\<lambda>c. ci_user_id c = uid) (cart_items db) \<noteq> [] \<longrightarrow> fst (checkout db env uid r) \<noteq> CartEmpty)"
  by (auto simp: checkout_def Let_def split: sum.splits prod.splits)

theorem checkout_empty_cart_witness:
  "checkout (example_db (example_product 100 10 5 True) [] []) (example_env None) 1 (example_request POST)
     = (CartEmpty, example_db (example_product 100 10 5 True) [] [])
   \<and> fst (checkout (example_db (example_product 100 10 5 True) [cart_line 1 2] []) (example_env None) 1
          (example_request POST)) \<noteq> CartEmpty"
  using checkout_empty_cart [where uid = 1 and db = "example_db (example_product 100 10 5 True) [] []"
          and env = "example_env None" and r = "example_request POST"]
        checkout_empty_cart [where uid = 1 and db = "example_db (example_product 100 10 5 True) [cart_line 1 2] []"
          and env = "example_env None" and r = "example_request POST"]
  by (simp add: example_db_def cart_line_def)

section \<open>A taken order number\<close>

text \<open>
  C8, as stated: on a collision of the order number the checkout retries with a fresh
  candidate and never fails on the first collision with a generic error. The view makes
  one candidate; when an order already has that number, the flush raises, the handler of
  line 100 rolls back and the generic failure is the answer, on the first collision.
\<close>

theorem order_number_collision_counterexample:
  "make_order_number (example_env None)
     \<in> set (map o_order_number (orders (example_db (example_product 100 10 5 True) [cart_line 1 2]
          [new_order 1 ''ORD-20240309-1A2B3C4D'' second_env 2 (example_request POST) (calculate_totals 100)])))
   \<and> fst (checkout (example_db (example_product 100 10 5 True) [cart_line 1 2]
          [new_order 1 ''ORD-20240309-1A2B3C4D'' second_env 2 (example_request POST) (calculate_totals 100)])
        (example_env None) 1 (example_request POST)) = OrderFailed"
  using order_number_example [of None] by (simp add: checkout_eval)

text \<open>
  C8, amended: when the candidate order number is taken, a submitted valid checkout of a
  non-empty cart fails at once with the generic error of the handler and leaves the
  database as it was; there is no second candidate, no retry loop and no error of its own
  for the collision.
\<close>

theorem order_number_collision_fails:
  assumes "make_order_number env \<in> set (map o_order_number (orders db))"
    and "validate_on_submit r"
    and "filter (\<lambda>c. ci_user_id c = uid) (cart_items db) \<noteq> []"
    and "sum_subtotals db 0 (filter (\<lambda>c. ci_user_id c = uid) (cart_items db)) = Inr s"
  shows "checkout db env uid r = (OrderFailed, db)"
  using assms by (simp add: checkout_def place_order_def flush_order_def new_order_def Let_def)

theorem order_number_collision_fails_witness:
  "checkout (example_db (example_product 100 10 5 True) [cart_line 1 2]
          [new_order 1 ''ORD-20240309-1A2B3C4D'' second_env 2 (example_request POST) (calculate_totals 100)])
        (example_env None) 1 (example_request POST)
     = (OrderFailed, example_db (example_product 100 10 5 True) [cart_line 1 2]
          [new_order 1 ''ORD-20240309-1A2B3C4D'' second_env 2 (example_request POST) (calculate_totals 100)])"
proof -
  let ?db = "example_db (example_product 100 10 5 True) [cart_line 1 2]
          [new_order 1 ''ORD-20240309-1A2B3C4D'' second_env 2 (example_request POST) (calculate_totals 100)]"
  have 1: "make_order_number (example_env None) \<in> set (map o_order_number (orders ?db))"
    using order_number_example [of None] by (simp add: example_db_def new_order_def)
  have 2: "validate_on_submit (example_request POST)"
    by (simp add: checkout_eval)
  have 3: "filter (\<lambda>c. ci_user_id c = 1) (cart_items ?db) \<noteq> []"
    by (simp add: example_db_def cart_line_def)
  have 4: "sum_subtotals ?db 0 (filter (\<lambda>c. ci_user_id c = 1) (cart_items ?db))
             = Inr (fadd 0 (line_subtotal (get_discounted_price (example_product 100 10 5 True)) 2))"
    by (simp add: example_db_def cart_line_def get_subtotal_def)
  show ?thesis by (rule order_number_collision_fails [OF 1 2 3 4])
qed

section \<open>Stock and availability at the checkout\<close>

text \<open>
  C1 fails on the code: the checkout does not compare a line's quantity with the stock
  (\<^verbatim>\<open>add_to_cart\<close> and \<^verbatim>\<open>update_cart_item\<close> do, when the line is written). A cart line
  of quantity 2 for a product whose stock has since fallen to 1 is checked out: the order
  is placed and the stock becomes \<open>- 1\<close>.
\<close>

theorem checkout_oversells:
  "fst (checkout (example_db (example_product 100 0 1 True) [cart_line 1 2] []) (example_env None) 1
          (example_request POST)) = OrderPlaced ''ORD-20240309-1A2B3C4D''
   \<and> map_option p_stock_quantity
        (products (snd (checkout (example_db (example_product 100 0 1 True) [cart_line 1 2] [])
           (example_env None) 1 (example_request POST))) 1) = Some (- 1)"
  using order_number_example [of None] by (simp add: checkout_eval example_product_def)

text \<open>
  C7 fails on the code: the checkout does not read \<^verbatim>\<open>is_active\<close> (\<^verbatim>\<open>add_to_cart\<close> does).
  A cart line for a product that has been deactivated since is checked out: the order and
  its item are created and the stock is decremented.
\<close>

theorem checkout_inactive_product:
  "fst (checkout (example_db (example_product 100 0 5 False) [cart_line 1 2] []) (example_env None) 1
          (example_request POST)) = OrderPlaced ''ORD-20240309-1A2B3C4D''
   \<and> length (orders (snd (checkout (example_db (example_product 100 0 5 False) [cart_line 1 2] [])
           (example_env None) 1 (example_request POST)))) = 1
   \<and> length (order_items (snd (checkout (example_db (example_product 100 0 5 False) [cart_line 1 2] [])
           (example_env None) 1 (example_request POST)))) = 1
   \<and> map_option p_stock_quantity
        (products (snd (checkout (example_db (example_product 100 0 5 False) [cart_line 1 2] [])
           (example_env None) 1 (example_request POST))) 1) = Some 3"
  using order_number_example [of None] by (simp add: checkout_eval example_product_def)

text \<open>
  C4 fails on the code already for two checkouts that run one after the other, which is
  one of the schedules of two concurrent requests: with a stock of 1 and two shoppers
  whose carts each hold one unit, both checkouts place their order and the stock ends at
  \<open>- 1\<close>.
\<close>

theorem two_checkouts_oversell:
  "fst (checkout (example_db (example_product 100 0 1 True) [cart_line 1 1, cart_line 2 1] [])
          (example_env None) 1 (example_request POST)) = OrderPlaced ''ORD-20240309-1A2B3C4D''
   \<and> fst (checkout
            (snd (checkout (example_db (example_product 100 0 1 True) [cart_line 1 1, cart_line 2 1] [])
                    (example_env None) 1 (example_request POST)))
            second_env 2 (example_request POST)) = OrderPlaced ''ORD-20240309-9C8B7A6D''
   \<and> map_option p_stock_quantity
        (products
          (snd (checkout
            (snd (checkout (example_db (example_product 100 0 1 True) [cart_line 1 1, cart_line 2 1] [])
                    (example_env None) 1 (example_request POST)))
            second_env 2 (example_request POST))) 1) = Some (- 1)"
  using order_number_example [of None] second_order_number
  by (simp add: checkout_eval example_product_def)

section \<open>The order a checkout creates\<close>

text \<open>
  C10: the order of a successful checkout is created with status \<^verbatim>\<open>confirmed\<close> (never
  \<^verbatim>\<open>pending\<close>), payment status \<^verbatim>\<open>paid\<close> and discount amount 0, and its order number is
  \<^verbatim>\<open>ORD-\<close>, eight decimal digits, \<^verbatim>\<open>-\<close> and eight uppercase hexadecimal digits. The
  clock's year has four digits.
\<close>

theorem order_created_confirmed:
  assumes "fst (checkout db env uid r) = OrderPlaced n"
    and "1000 \<le> d_year (e_now env)" and "d_year (e_now env) \<le> 9999"
  shows "\<exists>ord stamp suffix.
           orders (snd (checkout db env uid r)) = orders db @ [ord]
           \<and> o_status ord = ''confirmed'' \<and> o_status ord \<noteq> ''pending''
           \<and> o_payment_status ord = ''paid''
           \<and> o_discount_amount ord = 0
           \<and> o_order_number ord = n
           \<and> n = ''ORD-'' @ stamp @ ''-'' @ suffix
           \<and> length stamp = 8 \<and> list_all (\<lambda>c. c \<in> set ''0123456789'') stamp
           \<and> length suffix = 8 \<and> list_all (\<lambda>c. c \<in> set ''0123456789ABCDEF'') suffix"
proof -
  from checkout_placed_orders [OF assms(1)] obtain s where
    n: "n = make_order_number env"
    and o: "orders (snd (checkout db env uid r))
              = orders db @ [new_order (next_order_id db) n env uid r (calculate_totals s)]"
    by blast
  let ?ord = "new_order (next_order_id db) n env uid r (calculate_totals s)"
  have fields: "o_status ?ord = ''confirmed'' \<and> o_status ?ord \<noteq> ''pending''
      \<and> o_payment_status ?ord = ''paid'' \<and> o_discount_amount ?ord = 0 \<and> o_order_number ?ord = n"
    by (simp add: new_order_def)
  have shape: "n = ''ORD-'' @ strftime_Ymd (e_now env) @ ''-'' @ upper (take 8 (uuid_hex (e_uuid_order env)))"
    by (simp add: n make_order_number_def)
  from o fields shape strftime_Ymd_shape [of "e_now env"] uuid_suffix_shape [of "e_uuid_order env"]
  show ?thesis by blast
qed

theorem order_created_confirmed_witness:
  "fst (checkout (example_db (example_product 100 10 5 True) [cart_line 1 2] []) (example_env None) 1
          (example_request POST)) = OrderPlaced ''ORD-20240309-1A2B3C4D''
   \<and> (\<exists>ord stamp suffix.
           orders (snd (checkout (example_db (example_product 100 10 5 True) [cart_line 1 2] [])
              (example_env None) 1 (example_request POST))) = [] @ [ord]
           \<and> o_status ord = ''confirmed'' \<and> o_status ord \<noteq> ''pending''
           \<and> o_payment_status ord = ''paid''
           \<and> o_discount_amount ord = 0
           \<and> o_order_number ord = ''ORD-20240309-1A2B3C4D''
           \<and> ''ORD-20240309-1A2B3C4D'' = ''ORD-'' @ stamp @ ''-'' @ suffix
           \<and> length stamp = 8 \<and> list_all (\<lambda>c. c \<in> set ''0123456789'') stamp
           \<and> length suffix = 8 \<and> list_all (\<lambda>c. c \<in> set ''0123456789ABCDEF'') suffix)"
proof -
  have f: "fst (checkout (example_db (example_product 100 10 5 True) [cart_line 1 2] [])
          (example_env None) 1 (example_request POST)) = OrderPlaced ''ORD-20240309-1A2B3C4D''"
    using order_number_example [of None] by (simp add: checkout_eval)
  have y: "1000 \<le> d_year (e_now (example_env None))" "d_year (e_now (example_env None)) \<le> 9999"
    by (simp_all add: example_env_def)
  have od: "orders (example_db (example_product 100 10 5 True) [cart_line 1 2] []) = []"
    by (simp add: example_db_def)
  from order_created_confirmed [OF f y] f show ?thesis unfolding od by blast
qed

end
